theory Spec2Isabelle
  imports Complex_Main
begin

section \<open>Common Python-level values\<close>

text \<open>
  A finite floating-point number of the source is modelled by a real: no rounding, no
  overflow. Division by zero is never the HOL value \<open>x / 0 = 0\<close>: in the root finder
  it is an outcome of its own, and in the criticality search the numbers are NumPy
  floats with their \<open>inf\<close> and \<open>nan\<close>, given below.
\<close>

datatype py_error = TypeError | ValueError | IndexError | NameError

section \<open>openmc/search.py: custom_root_finder\<close>

text \<open>The local class \<open>hold_root_cand\<close>: a candidate point and the objective there.\<close>

record hold_root_cand =
  guess :: real
  val :: real

text \<open>The two \<open>print\<close> calls of the function, with the point and value they report.\<close>

datatype diagnostic =
  NoRootInRange real real
| NotMonotonic real real

text \<open>
  How a call ends: \<open>return e\<close>, the end of the body without a \<open>return\<close> (Python's
  implicit \<open>None\<close>), a raised exception, or a \<open>nan\<close> iterate (\<open>0/0\<close>).
\<close>

datatype outcome =
  Returned real
| ReturnedNone
| Raised py_error
| NotANumber

text \<open>
  The result of a call together with its visible effects: what was printed and the
  points at which the objective was called, in order.
\<close>

record finder_result =
  outcome :: outcome
  printed :: "diagnostic list"
  evals :: "real list"

text \<open>\<open>bool((np.sign(a)*np.sign(b)+1)/2)\<close>\<close>

definition same_sign :: "real \<Rightarrow> real \<Rightarrow> bool" where
  "same_sign a b = ((sgn a * sgn b + 1) / 2 \<noteq> 0)"

text \<open>
  The \<open>else\<close> branch shared by the bracket repair and the iteration: the candidate of
  smallest magnitude among \<open>left\<close>, \<open>right\<close>, \<open>next\<close>, tested in this order.
\<close>

definition give :: "hold_root_cand \<Rightarrow> hold_root_cand \<Rightarrow> hold_root_cand \<Rightarrow> hold_root_cand" where
  "give left right nxt =
     (let g = left;
          g = (if \<bar>val right\<bar> < \<bar>val g\<bar> then right else g);
          g = (if \<bar>val nxt\<bar> < \<bar>val g\<bar> then nxt else g)
      in g)"

text \<open>The false-position step of the loop body.\<close>

definition next_guess :: "hold_root_cand \<Rightarrow> hold_root_cand \<Rightarrow> real" where
  "next_guess left right =
     guess left + (guess right - guess left) * \<bar>val left\<bar> / (\<bar>val left\<bar> + \<bar>val right\<bar>)"

text \<open>
  \<open>for i in range(max_iter)\<close>: the first argument counts the iterations left. The
  result lists the evaluation points of the iterations only.
\<close>

fun iterate :: "nat \<Rightarrow> (real \<Rightarrow> real) \<Rightarrow> real \<Rightarrow> hold_root_cand \<Rightarrow> hold_root_cand \<Rightarrow> finder_result" where
  "iterate 0 f tol left right = \<lparr>outcome = ReturnedNone, printed = [], evals = []\<rparr>"
| "iterate (Suc n) f tol left right =
     (if \<bar>val left\<bar> + \<bar>val right\<bar> = 0
      then \<lparr>outcome = NotANumber, printed = [], evals = []\<rparr>
      else
        let nxt = \<lparr>guess = next_guess left right, val = f (next_guess left right)\<rparr> in
        if \<bar>val nxt\<bar> < tol
        then \<lparr>outcome = Returned (guess nxt), printed = [], evals = [guess nxt]\<rparr>
        else if \<not> same_sign (val left) (val nxt)
        then (let r = iterate n f tol left nxt in r\<lparr>evals := guess nxt # evals r\<rparr>)
        else if \<not> same_sign (val nxt) (val right)
        then (let r = iterate n f tol nxt right in r\<lparr>evals := guess nxt # evals r\<rparr>)
        else
          let g = give left right nxt in
          \<lparr>outcome = Returned (guess g),
           printed = [NotMonotonic (guess g) (val g)],
           evals = [guess nxt]\<rparr>)"

text \<open>
  Everything before the loop, after the bracket checks: either the call is over
  (\<open>Inl\<close>), or the loop starts from the candidates \<open>left\<close> and \<open>right\<close>, after the
  listed evaluations.
\<close>

definition bracket_setup ::
  "(real \<Rightarrow> real) \<Rightarrow> real \<Rightarrow> real \<Rightarrow> real \<Rightarrow> real
     \<Rightarrow> finder_result + (hold_root_cand \<times> hold_root_cand \<times> real list)" where
  "bracket_setup f x0 a b tol =
     (let start0 = f x0 in
      if \<bar>start0\<bar> < tol
      then Inl \<lparr>outcome = Returned x0, printed = [], evals = [x0]\<rparr>
      else
        let start_left = f a in
        if \<bar>start_left\<bar> < tol
        then Inl \<lparr>outcome = Returned a, printed = [], evals = [x0, a]\<rparr>
        else
          let left = (if start0 < start_left
                      then \<lparr>guess = x0, val = start0\<rparr>
                      else \<lparr>guess = a, val = start_left\<rparr>);
              right = (if start0 < start_left
                       then \<lparr>guess = a, val = start_left\<rparr>
                       else \<lparr>guess = x0, val = start0\<rparr>)
          in
          if same_sign (val left) (val right)
          then
            let start_right = f b in
            if \<bar>start_right\<bar> < tol
            then Inl \<lparr>outcome = Returned b, printed = [], evals = [x0, a, b]\<rparr>
            else
              let nxt = \<lparr>guess = b, val = start_right\<rparr> in
              if \<not> same_sign (val left) (val nxt)
              then Inr (left, nxt, [x0, a, b])
              else if \<not> same_sign (val nxt) (val right)
              then Inr (nxt, right, [x0, a, b])
              else
                let g = give left right nxt in
                Inl \<lparr>outcome = Returned (guess g),
                     printed = [NoRootInRange (guess g) (val g)],
                     evals = [x0, a, b]\<rparr>
          else Inr (left, right, [x0, a]))"

text \<open>
  \<open>custom_root_finder(f, x0, bracket, tol, args, max_iter)\<close>. The objective takes
  its extra arguments \<open>args\<close> with it; \<open>bracket\<close> is a sequence of reals, checked
  by \<open>cv.check_length\<close> (two elements, else \<open>ValueError\<close>) and
  \<open>cv.check_less_than\<close> (first below second, else \<open>ValueError\<close>).
\<close>

definition custom_root_finder ::
  "(real \<Rightarrow> real) \<Rightarrow> real \<Rightarrow> real list \<Rightarrow> real \<Rightarrow> nat \<Rightarrow> finder_result" where
  "custom_root_finder f x0 bracket tol max_iter =
     (case bracket of
        [a, b] \<Rightarrow>
          if a \<ge> b then \<lparr>outcome = Raised ValueError, printed = [], evals = []\<rparr>
          else (case bracket_setup f x0 a b tol of
                  Inl r \<Rightarrow> r
                | Inr (left, right, es) \<Rightarrow>
                    (let r = iterate max_iter f tol left right in r\<lparr>evals := es @ evals r\<rparr>))
      | _ \<Rightarrow> \<lparr>outcome = Raised ValueError, printed = [], evals = []\<rparr>)"

text \<open>
  The run described by the non-convergence claim: each of the next \<open>n\<close> iterations
  computes a point, misses the tolerance there, and replaces one endpoint by it.
\<close>

fun keeps_going :: "nat \<Rightarrow> (real \<Rightarrow> real) \<Rightarrow> real \<Rightarrow> hold_root_cand \<Rightarrow> hold_root_cand \<Rightarrow> bool" where
  "keeps_going 0 f tol left right = True"
| "keeps_going (Suc n) f tol left right =
     (\<bar>val left\<bar> + \<bar>val right\<bar> \<noteq> 0 \<and>
      (let nxt = \<lparr>guess = next_guess left right, val = f (next_guess left right)\<rparr> in
       \<not> \<bar>val nxt\<bar> < tol \<and>
       (if \<not> same_sign (val left) (val nxt) then keeps_going n f tol left nxt
        else \<not> same_sign (val nxt) (val right) \<and> keeps_going n f tol nxt right)))"


section \<open>NumPy floats\<close>

text \<open>
  A \<open>numpy.float64\<close>: a finite number, an infinity, or \<open>nan\<close>. The operations
  follow IEEE 754 as NumPy applies it (a warning, no exception): a division by zero
  gives an infinity or, for \<open>0/0\<close>, \<open>nan\<close>; \<open>inf - inf\<close>, \<open>0 * inf\<close> and
  \<open>inf / inf\<close> give \<open>nan\<close>; \<open>nan\<close> spreads through every operation and every
  comparison with it is false. Zero has no sign here: a zero divisor counts as
  \<open>+0.0\<close>.
\<close>

datatype float64 = Fin real | PInf | NInf | NaN

text \<open>The infinity of the sign of \<open>s\<close>; \<open>nan\<close> when \<open>s\<close> is zero.\<close>

definition signed_inf :: "real \<Rightarrow> float64" where
  "signed_inf s = (if 0 < s then PInf else if s < 0 then NInf else NaN)"

fun sign_of :: "float64 \<Rightarrow> real" where
  "sign_of (Fin x) = sgn x"
| "sign_of PInf = 1"
| "sign_of NInf = - 1"
| "sign_of NaN = 0"

instantiation float64 :: "{plus, uminus, minus, times, inverse, ord}"
begin

fun plus_float64 :: "float64 \<Rightarrow> float64 \<Rightarrow> float64" where
  "plus_float64 (Fin x) (Fin y) = Fin (x + y)"
| "plus_float64 NaN b = NaN"
| "plus_float64 a NaN = NaN"
| "plus_float64 PInf NInf = NaN"
| "plus_float64 NInf PInf = NaN"
| "plus_float64 PInf b = PInf"
| "plus_float64 a PInf = PInf"
| "plus_float64 NInf b = NInf"
| "plus_float64 a NInf = NInf"

fun uminus_float64 :: "float64 \<Rightarrow> float64" where
  "uminus_float64 (Fin x) = Fin (- x)"
| "uminus_float64 PInf = NInf"
| "uminus_float64 NInf = PInf"
| "uminus_float64 NaN = NaN"

definition minus_float64 :: "float64 \<Rightarrow> float64 \<Rightarrow> float64" where
  "minus_float64 a b = a + (- b)"

fun times_float64 :: "float64 \<Rightarrow> float64 \<Rightarrow> float64" where
  "times_float64 (Fin x) (Fin y) = Fin (x * y)"
| "times_float64 NaN b = NaN"
| "times_float64 a NaN = NaN"
| "times_float64 a b = signed_inf (sign_of a * sign_of b)"

fun divide_float64 :: "float64 \<Rightarrow> float64 \<Rightarrow> float64" where
  "divide_float64 (Fin x) (Fin y) = (if y \<noteq> 0 then Fin (x / y) else signed_inf (sgn x))"
| "divide_float64 NaN b = NaN"
| "divide_float64 a NaN = NaN"
| "divide_float64 (Fin x) b = Fin 0"
| "divide_float64 a (Fin y) = signed_inf (sign_of a * (if y < 0 then - 1 else 1))"
| "divide_float64 a b = NaN"

definition inverse_float64 :: "float64 \<Rightarrow> float64" where
  "inverse_float64 a = divide (Fin 1) a"

fun less_eq_float64 :: "float64 \<Rightarrow> float64 \<Rightarrow> bool" where
  "less_eq_float64 (Fin x) (Fin y) = (x \<le> y)"
| "less_eq_float64 NaN b = False"
| "less_eq_float64 a NaN = False"
| "less_eq_float64 NInf b = True"
| "less_eq_float64 a PInf = True"
| "less_eq_float64 a b = False"

definition less_float64 :: "float64 \<Rightarrow> float64 \<Rightarrow> bool" where
  "less_float64 a b = (a \<le> b \<and> a \<noteq> b)"

instance ..

end

text \<open>\<open>np.absolute\<close> and \<open>np.sqrt\<close>; the root of a number below zero is \<open>nan\<close>.\<close>

fun absolute :: "float64 \<Rightarrow> float64" where
  "absolute (Fin x) = Fin \<bar>x\<bar>"
| "absolute PInf = PInf"
| "absolute NInf = PInf"
| "absolute NaN = NaN"

fun np_sqrt :: "float64 \<Rightarrow> float64" where
  "np_sqrt (Fin x) = (if 0 \<le> x then Fin (sqrt x) else NaN)"
| "np_sqrt PInf = PInf"
| "np_sqrt NInf = NaN"
| "np_sqrt NaN = NaN"

section \<open>openmc/deplete/coupled_operator.py: the arithmetic of one inactive batch\<close>

text \<open>
  A step of \<open>search_crit_conc\<close> gives a value or raises a Python exception. The
  arithmetic raises nothing: it goes on with \<open>inf\<close> or \<open>nan\<close>.
\<close>

definition bind_err :: "py_error + 'a \<Rightarrow> ('a \<Rightarrow> py_error + 'b) \<Rightarrow> py_error + 'b" where
  "bind_err m k = (case m of Inl e \<Rightarrow> Inl e | Inr a \<Rightarrow> k a)"

text \<open>Python's \<open>xs[i]\<close> for \<open>i \<ge> 0\<close>.\<close>

definition getitem :: "'a list \<Rightarrow> nat \<Rightarrow> py_error + 'a" where
  "getitem xs i = (if i < length xs then Inr (xs ! i) else Inl IndexError)"

text \<open>
  \<open>tally.results\<close>: an array indexed by filter bin, score and column (the column of
  index 1 holds the sum over the batches so far). The solver reports finite numbers.
\<close>

type_synonym tally_results = "real list list list"

text \<open>\<open>tally_.results - tally_.results\<close>\<close>

definition zeros_like :: "tally_results \<Rightarrow> tally_results" where
  "zeros_like t = map (map (map (\<lambda>_. 0))) t"

definition same_shape :: "tally_results \<Rightarrow> tally_results \<Rightarrow> bool" where
  "same_shape s t = (map (map length) s = map (map length) t)"

text \<open>
  \<open>tally_.results - prev_res[i]\<close>, elementwise. A tally keeps the shape of its
  results during a run; arrays of two shapes are an error here (NumPy raises
  \<open>ValueError\<close> when two shapes do not broadcast).
\<close>

definition minus_results :: "tally_results \<Rightarrow> tally_results \<Rightarrow> py_error + tally_results" where
  "minus_results s t =
     (if same_shape s t then Inr (map2 (map2 (map2 (-))) s t)
      else Inl ValueError)"

fun minus_all :: "tally_results list \<Rightarrow> tally_results list \<Rightarrow> py_error + tally_results list" where
  "minus_all [] ps = Inr []"
| "minus_all (t # ts) [] = Inl IndexError"
| "minus_all (t # ts) (q # ps) =
     bind_err (minus_results t q) (\<lambda>d. bind_err (minus_all ts ps) (\<lambda>ds. Inr (d # ds)))"

text \<open>The six numbers read from the tally differences of one batch.\<close>

record balance =
  P_fiss_prompt :: real
  P_fiss_delayed :: real
  P_nxn :: real
  L_leak :: real
  L_abs :: real
  L_abs_nucs :: real

text \<open>\<open>curr_res[0][0][j][1]\<close>\<close>

definition score :: "tally_results list \<Rightarrow> nat \<Rightarrow> py_error + real" where
  "score curr_res j =
     bind_err (getitem curr_res 0) (\<lambda>t. bind_err (getitem t 0) (\<lambda>b. bind_err (getitem b j) (\<lambda>r. getitem r 1)))"

text \<open>
  The block from \<open>P_fiss_prompt = ...\<close> to \<open>L_abs_nucs = ...\<close>;
  \<open>np.sum(np.sum(np.array(curr_res[1][0]).T, axis=1))\<close> adds up every entry of the
  first filter bin of the second tally.
\<close>

definition read_balance :: "tally_results list \<Rightarrow> real \<Rightarrow> py_error + balance" where
  "read_balance curr_res leak =
     bind_err (score curr_res 0) (\<lambda>prompt.
     bind_err (score curr_res 1) (\<lambda>delayed.
     bind_err (score curr_res 3) (\<lambda>nxn_gain.
     bind_err (score curr_res 4) (\<lambda>nxn_loss.
     bind_err (score curr_res 2) (\<lambda>absorbed.
     bind_err (getitem curr_res 1) (\<lambda>t.
     bind_err (getitem t 0) (\<lambda>b.
       Inr \<lparr>P_fiss_prompt = prompt, P_fiss_delayed = delayed, P_nxn = nxn_gain - nxn_loss,
            L_leak = leak, L_abs = absorbed,
            L_abs_nucs = sum_list (map sum_list b)\<rparr>)))))))"

text \<open>
  \<open>corr = ((P_fiss_prompt/target + P_fiss_delayed + P_nxn) * (1-L_leak)
  - (L_abs-L_abs_nucs)) / L_abs_nucs\<close>
\<close>

definition corr :: "real \<Rightarrow> balance \<Rightarrow> float64" where
  "corr target bal =
     ((Fin (P_fiss_prompt bal) / Fin target + Fin (P_fiss_delayed bal) + Fin (P_nxn bal))
        * Fin (1 - L_leak bal)
        - Fin (L_abs bal - L_abs_nucs bal)) / Fin (L_abs_nucs bal)"

text \<open>\<open>g = corr\<close>, then \<open>if g <= 0: g = 0.5\<close>: the factor that enters \<open>z\<close>.\<close>

definition batch_factor :: "real \<Rightarrow> balance \<Rightarrow> float64" where
  "batch_factor target bal = (let g = corr target bal in if g \<le> Fin 0 then Fin 0.5 else g)"

text \<open>
  \<open>p_measure = (np.absolute(k[0]-target)/target + 1/np.sqrt(particles))**2\<close>
\<close>

definition p_measure :: "real \<Rightarrow> real \<Rightarrow> int \<Rightarrow> float64" where
  "p_measure k target particles =
     (let a = absolute (Fin (k - target)) / Fin target
                + Fin 1 / np_sqrt (Fin (real_of_int particles))
      in a * a)"

text \<open>
  The lines from \<open>if M == 1:\<close> to \<open>p = p_n\<close>. The locals \<open>x\<close> and \<open>p\<close> are bound
  by the batch \<open>M == 1\<close> only (\<open>None\<close>: not bound yet). The result is the pair of the
  new \<open>x\<close> and the new \<open>p\<close>.
\<close>

definition fuse ::
  "nat \<Rightarrow> float64 option \<Rightarrow> float64 option \<Rightarrow> float64 \<Rightarrow> float64
     \<Rightarrow> py_error + (float64 \<times> float64)" where
  "fuse M x p p_meas z =
     (if M = 1
      then Inr (Fin 0 + p_meas / p_meas * (z - Fin 0), p_meas)
      else (case (x, p) of
              (Some x, Some p) \<Rightarrow>
                let p_n = Fin 1 / (Fin 1 / p + Fin 1 / p_meas)
                in Inr (x + p_n / p * (z - x), p_n)
            | _ \<Rightarrow> Inl NameError))"

text \<open>
  The recursion of the specification, in its words: the new precision is
  \<open>1 / (1/running_precision + 1/p_measure)\<close> and the estimate moves by
  \<open>(running_precision_new / p_measure) * (z - running_estimate)\<close>.
\<close>

definition spec_fuse :: "real \<Rightarrow> real \<Rightarrow> real \<Rightarrow> real \<Rightarrow> real \<times> real" where
  "spec_fuse running_estimate running_precision p_meas z =
     (let running_precision_new = 1 / (1 / running_precision + 1 / p_meas)
      in (running_estimate + (running_precision_new / p_meas) * (z - running_estimate),
          running_precision_new))"

text \<open>
  A material of \<open>openmc.lib\<close>: its nuclides with their densities, in order. The loop
  \<open>for nuc in all_nuc\<close> reads \<open>all_dens[all_nuc==str(nuc)][0]\<close>, the density of the
  first nuclide of that name, keeps the nuclide when this is above \<open>1e-36\<close>, scaled by
  \<open>g\<close> when the name is in \<open>iso\<close> (here \<open>isos\<close>), and \<open>set_densities\<close> replaces the material's
  composition by the pairs kept.
\<close>

type_synonym material = "(string \<times> float64) list"

definition rescale :: "float64 \<Rightarrow> string list \<Rightarrow> material \<Rightarrow> material" where
  "rescale g isos mat =
     concat (map (\<lambda>(nuc, _).
       case map_of mat nuc of
         None \<Rightarrow> []
       | Some v \<Rightarrow> if v > Fin (1 / 10 ^ 36)
                   then [(nuc, if nuc \<in> set isos then v * g else v)]
                   else []) mat)"

section \<open>openmc/deplete/coupled_operator.py: CoupledOperator.search_crit_conc\<close>

text \<open>
  The state the method works on: the attributes of the operator it reads or writes
  (\<open>initial_value\<close> and \<open>concs\<close> exist after the first search only), the ambient
  state of \<open>openmc.lib\<close>, which is the materials of the C API, the opaque simulation
  and the list of the calls made to it, and the balances written to the standard
  output by \<open>print(P_fiss_prompt, P_fiss_delayed, P_nxn, L_leak, L_abs, L_abs_nucs)\<close>
  (the other \<open>print\<close> calls are left out).
\<close>

datatype lib_call = Reset | SimulationInit | NextBatch | SimulationFinalize | ExportToXml

record 'sim operator =
  self_initial_value :: "float64 option"
  self_concs :: "float64 list"
  self_reaction_rates :: "real list"
  self_particles :: int
  self_n_calls :: nat
  model_materials :: "(nat \<times> material) list"
  lib_materials :: "(nat \<times> material) list"
  lib_simulation :: 'sim
  lib_calls :: "lib_call list"
  printed_balances :: "balance list"

text \<open>
  What the method needs from code outside the two files: the transport solver behind
  \<open>openmc.lib\<close> and two methods of the operator's base class. \<open>total_batches\<close> is
  the number of batches \<open>openmc.lib.iter_batches()\<close> runs; \<open>global_leakage\<close> is the
  entry \<open>openmc.lib.global_tallies()[3][0]\<close>.
\<close>

record ('sim, 'vec) collaborators =
  update_materials_and_nuclides ::
    "'vec \<Rightarrow> (nat \<times> material) list \<times> (nat \<times> material) list
       \<Rightarrow> (nat \<times> material) list \<times> (nat \<times> material) list"
  reset :: "'sim \<Rightarrow> 'sim"
  simulation_init :: "(nat \<times> material) list \<Rightarrow> 'sim \<Rightarrow> 'sim"
  total_batches :: nat
  next_batch :: "(nat \<times> material) list \<Rightarrow> 'sim \<Rightarrow> 'sim"
  keff :: "'sim \<Rightarrow> real \<times> real"
  tallies :: "'sim \<Rightarrow> tally_results list"
  global_leakage :: "'sim \<Rightarrow> real"
  simulation_finalize :: "'sim \<Rightarrow> 'sim"
  calculate_reaction_rates :: "real \<Rightarrow> 'sim \<Rightarrow> real list"

text \<open>The locals of the method that live across the batches.\<close>

record search_vars =
  var_f :: float64
  var_g :: float64
  var_f_prev :: float64
  var_x :: "float64 option"
  var_p :: "float64 option"
  var_prev_res :: "tally_results list"
  var_prev_leak :: real

text \<open>The assignments from \<open>f = 1\<close> to \<open>prev_leak = 0\<close>.\<close>

definition initial_vars :: search_vars where
  "initial_vars =
     \<lparr>var_f = Fin 1, var_g = Fin 1, var_f_prev = Fin 1, var_x = None, var_p = None,
      var_prev_res = [], var_prev_leak = 0\<rparr>"

text \<open>
  The body of \<open>if M < batches:\<close> up to the \<open>print\<close> of the balance: the tally
  differences since the batch before and the balance read from them. The result is
  the balance with the new \<open>prev_res\<close> and \<open>prev_leak\<close>.
\<close>

definition batch_balance ::
  "('sim, 'vec) collaborators \<Rightarrow> nat \<Rightarrow> 'sim \<Rightarrow> search_vars
     \<Rightarrow> py_error + (balance \<times> tally_results list \<times> real)" where
  "batch_balance c M sim v =
     (let talliez = take 2 (tallies c sim);
          prev_res = (if M = 1 then var_prev_res v @ map zeros_like talliez else var_prev_res v)
      in
      bind_err (minus_all talliez prev_res) (\<lambda>curr_res.
        let prev_res = talliez @ drop (length talliez) prev_res;
            leak = global_leakage c sim * real M - var_prev_leak v;
            prev_leak = global_leakage c sim * real M
        in
        bind_err (read_balance curr_res leak) (\<lambda>bal. Inr (bal, prev_res, prev_leak))))"

text \<open>
  From \<open>corr = ...\<close> to \<open>f_prev = f\<close>: the factor of this batch, its fusion into
  \<open>x\<close>, and the factor \<open>g = f/f_prev\<close> to apply to the densities. \<open>k\<close> is
  \<open>k[0]\<close>, the eigenvalue estimate.
\<close>

definition batch_estimate ::
  "real \<Rightarrow> int \<Rightarrow> nat \<Rightarrow> real \<Rightarrow> balance \<Rightarrow> search_vars \<Rightarrow> py_error + search_vars" where
  "batch_estimate target particles M k bal v =
     (let g = batch_factor target bal;
          p_meas = p_measure k target particles;
          z = var_f_prev v * g
      in
      bind_err (fuse M (var_x v) (var_p v) p_meas z) (\<lambda>(x, p).
        Inr (v\<lparr>var_f := x, var_g := x / var_f_prev v, var_f_prev := x,
               var_x := Some x, var_p := Some p\<rparr>)))"

text \<open>
  One turn of \<open>for _ in openmc.lib.iter_batches()\<close>: the solver runs the batch
  \<open>M\<close>; when \<open>M < batches\<close> the locals are updated and every material of
  \<open>openmc.lib\<close> gets its rescaled densities; when \<open>M == batches\<close> the statistics
  are reset. An exception leaves the state as it is when it is raised.
\<close>

definition one_batch ::
  "('sim, 'vec) collaborators \<Rightarrow> string list \<Rightarrow> int \<Rightarrow> real \<Rightarrow> nat
     \<Rightarrow> search_vars \<times> 'sim operator \<Rightarrow> py_error option \<times> search_vars \<times> 'sim operator" where
  "one_batch c isos batches target M s =
     (let v = fst s;
          self = snd s;
          self = self\<lparr>lib_simulation := next_batch c (lib_materials self) (lib_simulation self),
                      lib_calls := lib_calls self @ [NextBatch]\<rparr>
      in
      if int M < batches
      then (case batch_balance c M (lib_simulation self) v of
              Inl e \<Rightarrow> (Some e, v, self)
            | Inr (bal, prev_res, prev_leak) \<Rightarrow>
                let v = v\<lparr>var_prev_res := prev_res, var_prev_leak := prev_leak\<rparr>;
                    self = self\<lparr>printed_balances := printed_balances self @ [bal]\<rparr>
                in
                (case batch_estimate target (self_particles self) M
                        (fst (keff c (lib_simulation self))) bal v of
                   Inl e \<Rightarrow> (Some e, v, self)
                 | Inr v' \<Rightarrow>
                     (None, v',
                      self\<lparr>lib_materials :=
                             map (\<lambda>(i, mat). (i, rescale (var_g v') isos mat))
                               (lib_materials self)\<rparr>)))
      else if int M = batches
      then (None, v,
            self\<lparr>lib_simulation := reset c (lib_simulation self),
                  lib_calls := lib_calls self @ [Reset]\<rparr>)
      else (None, v, self))"

text \<open>The loop: \<open>n\<close> batches are still to run, the next one has index \<open>M\<close>.\<close>

fun run_batches ::
  "('sim, 'vec) collaborators \<Rightarrow> string list \<Rightarrow> int \<Rightarrow> real \<Rightarrow> nat \<Rightarrow> nat
     \<Rightarrow> search_vars \<times> 'sim operator \<Rightarrow> py_error option \<times> search_vars \<times> 'sim operator" where
  "run_batches c isos batches target 0 M s = (None, s)"
| "run_batches c isos batches target (Suc n) M s =
     (case one_batch c isos batches target M s of
        (Some e, s') \<Rightarrow> (Some e, s')
      | (None, s') \<Rightarrow> run_batches c isos batches target n (Suc M) s')"

text \<open>
  The final loop over \<open>openmc.lib.materials\<close>: in the material of the model with the
  same id, every nuclide of the library material is removed and added again with the
  library's density.
\<close>

definition sync_material :: "material \<Rightarrow> material \<Rightarrow> material" where
  "sync_material lib_mat py_mat =
     fold (\<lambda>nuc pm.
            case map_of lib_mat nuc of
              None \<Rightarrow> pm
            | Some v \<Rightarrow> filter (\<lambda>e. fst e \<noteq> nuc) pm @ [(nuc, v)])
          (map fst lib_mat) py_mat"

definition sync_materials ::
  "(nat \<times> material) list \<Rightarrow> (nat \<times> material) list \<Rightarrow> (nat \<times> material) list" where
  "sync_materials lib_mats py_mats =
     fold (\<lambda>(i, lib_mat) pms.
            map (\<lambda>(j, pm). if j = i then (j, sync_material lib_mat pm) else (j, pm)) pms)
          lib_mats py_mats"

text \<open>Values of arguments whose type the method checks at run time.\<close>

datatype pyval = PyNone | PyInt int | PyFloat real | PyStr string | PyList "pyval list"

fun is_Real :: "pyval \<Rightarrow> bool" where
  "is_Real (PyInt _) = True"
| "is_Real (PyFloat _) = True"
| "is_Real _ = False"

fun is_Integral :: "pyval \<Rightarrow> bool" where
  "is_Integral (PyInt _) = True"
| "is_Integral _ = False"

text \<open>The value of a number; read after the type checks only.\<close>

fun number :: "pyval \<Rightarrow> real" where
  "number (PyInt i) = real_of_int i"
| "number (PyFloat r) = r"
| "number _ = 0"

text \<open>
  Modelled from the spec: the module \<open>openmc.checkvalue\<close> (\<open>cv\<close>) is not among the
  source files. By the specification the arguments are type-checked (real, integral)
  and a bracket whose lower bound is not below its upper bound is malformed:
  \<open>check_type\<close> raises \<open>TypeError\<close> for a value that is not of the expected type,
  \<open>check_iterable_type\<close> for a value that is not a sequence of such values,
  \<open>check_length\<close> raises \<open>ValueError\<close> for a sequence of another length, and
  \<open>check_less_than\<close> for a value that is not below the bound.
\<close>

definition check_type :: "pyval \<Rightarrow> (pyval \<Rightarrow> bool) \<Rightarrow> py_error option" where
  "check_type v expected_type = (if expected_type v then None else Some TypeError)"

definition check_iterable_type :: "pyval \<Rightarrow> (pyval \<Rightarrow> bool) \<Rightarrow> py_error option" where
  "check_iterable_type v expected_type =
     (case v of
        PyList vs \<Rightarrow> if list_all expected_type vs then None else Some TypeError
      | _ \<Rightarrow> Some TypeError)"

definition check_length :: "pyval \<Rightarrow> nat \<Rightarrow> py_error option" where
  "check_length v n =
     (case v of
        PyList vs \<Rightarrow> if length vs = n then None else Some ValueError
      | _ \<Rightarrow> Some TypeError)"

definition check_less_than :: "pyval \<Rightarrow> pyval \<Rightarrow> py_error option" where
  "check_less_than v maximum = (if number v \<ge> number maximum then Some ValueError else None)"

text \<open>
  The checks at the head of the method, in the order of the source; \<open>None\<close> when all
  pass. \<open>iso\<close> is \<open>None\<close> or a sequence of names.
\<close>

definition check_arguments ::
  "string list option \<Rightarrow> pyval \<Rightarrow> pyval \<Rightarrow> pyval \<Rightarrow> py_error option" where
  "check_arguments isos batches bracket initial_value =
     (if isos = None then Some ValueError
      else case (if initial_value \<noteq> PyNone then check_type initial_value is_Real
                 else Some ValueError) of
        Some e \<Rightarrow> Some e
      | None \<Rightarrow>
      (case (if batches \<noteq> PyNone then check_type batches is_Integral
             else Some ValueError) of
        Some e \<Rightarrow> Some e
      | None \<Rightarrow>
      (if bracket \<noteq> PyNone
       then (case check_iterable_type bracket is_Real of
               Some e \<Rightarrow> Some e
             | None \<Rightarrow>
             (case check_length bracket 2 of
                Some e \<Rightarrow> Some e
              | None \<Rightarrow>
              (case bracket of
                 PyList [lo, hi] \<Rightarrow> check_less_than lo hi
               | _ \<Rightarrow> Some IndexError)))
       else None)))"

text \<open>\<open>OperatorResult(keff, rates)\<close>, the eigenvalue as nominal value and deviation.\<close>

record operator_result =
  res_k :: "real \<times> real"
  res_rates :: "real list"

text \<open>
  From \<open>if not hasattr(self, 'initial_value'):\<close> to
  \<open>openmc.lib.simulation_init()\<close>: the state in which the loop over the batches
  starts.
\<close>

definition begin_search ::
  "('sim, 'vec) collaborators \<Rightarrow> 'sim operator \<Rightarrow> 'vec \<Rightarrow> pyval \<Rightarrow> 'sim operator" where
  "begin_search c self vec initial_value =
     (let self = (if self_initial_value self = None
                  then self\<lparr>self_initial_value := Some (Fin (number initial_value)),
                             self_concs := [Fin (number initial_value)]\<rparr>
                  else self);
          mats = update_materials_and_nuclides c vec (lib_materials self, model_materials self);
          self = self\<lparr>lib_materials := fst mats, model_materials := snd mats,
                      lib_calls := lib_calls self @ [ExportToXml]\<rparr>
      in self\<lparr>lib_simulation :=
                 simulation_init c (lib_materials self) (reset c (lib_simulation self)),
               lib_calls := lib_calls self @ [Reset, SimulationInit]\<rparr>)"

text \<open>
  From \<open>openmc.lib.simulation_finalize()\<close> to the \<open>return\<close>: the reference density
  is multiplied by \<open>f\<close> and appended to \<open>concs\<close>, the materials of the model get
  the library's densities, and the result is read from the solver. The attribute
  \<open>initial_value\<close> exists here, \<open>begin_search\<close> has set it.
\<close>

definition end_search ::
  "('sim, 'vec) collaborators \<Rightarrow> real \<Rightarrow> search_vars \<Rightarrow> 'sim operator
     \<Rightarrow> operator_result \<times> 'sim operator" where
  "end_search c source_rate v self =
     (let self = self\<lparr>lib_simulation := simulation_finalize c (lib_simulation self),
                      lib_calls := lib_calls self @ [SimulationFinalize]\<rparr>;
          new_value = (case self_initial_value self of Some iv \<Rightarrow> iv | None \<Rightarrow> NaN) * var_f v;
          self = self\<lparr>self_initial_value := Some new_value,
                      self_concs := self_concs self @ [new_value]\<rparr>;
          self = self\<lparr>model_materials :=
                        sync_materials (lib_materials self) (model_materials self),
                      lib_calls := lib_calls self @ [ExportToXml]\<rparr>;
          op_result = \<lparr>res_k = keff c (lib_simulation self),
                       res_rates = calculate_reaction_rates c source_rate (lib_simulation self)\<rparr>
      in (op_result, self\<lparr>self_n_calls := self_n_calls self + 1\<rparr>))"

text \<open>
  The method: what the call gives (a result, or the exception that ends it) and the
  state after it. \<open>invert\<close> is not read by the source and is left out.
\<close>

definition search_crit_conc ::
  "('sim, 'vec) collaborators \<Rightarrow> 'sim operator \<Rightarrow> 'vec \<Rightarrow> real \<Rightarrow> string list option
     \<Rightarrow> pyval \<Rightarrow> pyval \<Rightarrow> pyval \<Rightarrow> real
     \<Rightarrow> (py_error + operator_result) \<times> 'sim operator" where
  "search_crit_conc c self vec source_rate isos batches bracket initial_value target =
     (case check_arguments isos batches bracket initial_value of
        Some e \<Rightarrow> (Inl e, self)
      | None \<Rightarrow>
        if source_rate = 0
        then (Inr \<lparr>res_k = (0, 0), res_rates = map (\<lambda>_. 0) (self_reaction_rates self)\<rparr>, self)
        else
          case run_batches c (case isos of Some ns \<Rightarrow> ns | None \<Rightarrow> [])
                 (case batches of PyInt n \<Rightarrow> n | _ \<Rightarrow> 0) target (total_batches c) 1
                 (initial_vars, begin_search c self vec initial_value) of
            (Some e, v, self) \<Rightarrow> (Inl e, self)
          | (None, v, self) \<Rightarrow>
              (case end_search c source_rate v self of (op_result, self) \<Rightarrow> (Inr op_result, self)))"

section \<open>Scripted transport collaborators\<close>

text \<open>
  A collaborator for concrete runs: the simulation state counts the batches run; every
  batch adds \<open>prompt\<close> to the prompt fission production, \<open>absorbed\<close> to the total
  absorption and \<open>nuclides\<close> to the absorption in the tracked nuclides, with no
  leakage, and the eigenvalue estimate is 1. It runs \<open>n\<close> batches and leaves the
  materials it is handed as they are.
\<close>

definition scripted_balance :: "real \<Rightarrow> real \<Rightarrow> real \<Rightarrow> nat \<Rightarrow> (nat, unit) collaborators" where
  "scripted_balance prompt absorbed nuclides n =
     \<lparr>update_materials_and_nuclides = (\<lambda>_ mats. mats),
      reset = (\<lambda>sim. sim),
      simulation_init = (\<lambda>_ _. 0),
      total_batches = n,
      next_batch = (\<lambda>_ sim. Suc sim),
      keff = (\<lambda>_. (1, 0)),
      tallies = (\<lambda>sim.
        [[[[0, prompt * real sim, 0], [0, 0, 0], [0, absorbed * real sim, 0], [0, 0, 0],
           [0, 0, 0]]],
         [[[0, nuclides * real sim, 0]]]]),
      global_leakage = (\<lambda>_. 0),
      simulation_finalize = (\<lambda>sim. sim),
      calculate_reaction_rates = (\<lambda>_ _. [7, 9])\<rparr>"

text \<open>The same with one unit of absorption a batch, all of it in the tracked nuclides.\<close>

definition scripted :: "real \<Rightarrow> nat \<Rightarrow> (nat, unit) collaborators" where
  "scripted prompt n = scripted_balance prompt 1 1 n"

text \<open>An operator before its first search, with one material of three nuclides.\<close>

definition fresh_operator :: "nat operator" where
  "fresh_operator =
     \<lparr>self_initial_value = None, self_concs = [], self_reaction_rates = [3, 4],
      self_particles = 1, self_n_calls = 0,
      model_materials =
        [(1, [(''B10'', Fin (2 / 10 ^ 36)), (''H1'', Fin (5 / 10 ^ 37)), (''O16'', Fin 1)])],
      lib_materials =
        [(1, [(''B10'', Fin (2 / 10 ^ 36)), (''H1'', Fin (5 / 10 ^ 37)), (''O16'', Fin 1)])],
      lib_simulation = 0, lib_calls = [], printed_balances = []\<rparr>"

section \<open>The invariant of the loop over the batches\<close>



section \<open>Properties of custom_root_finder\<close>

lemma same_sign_sym: "same_sign a b = same_sign b a"
  by (simp add: same_sign_def mult.commute)

lemma give_cases: "give l r n = l \<or> give l r n = r \<or> give l r n = n"
  by (simp add: give_def Let_def)

lemma give_min:
  "\<bar>val (give l r n)\<bar> \<le> \<bar>val l\<bar> \<and> \<bar>val (give l r n)\<bar> \<le> \<bar>val r\<bar> \<and>
   \<bar>val (give l r n)\<bar> \<le> \<bar>val n\<bar>"
  by (simp add: give_def Let_def)

lemma iterate_keeps_going:
  "keeps_going n f tol left right \<Longrightarrow>
     outcome (iterate n f tol left right) = ReturnedNone \<and>
     printed (iterate n f tol left right) = [] \<and>
     length (evals (iterate n f tol left right)) = n"
proof (induction n arbitrary: left right)
  case 0
  then show ?case by simp
next
  case (Suc n)
  then show ?case by (auto simp: Let_def split: if_splits)
qed

lemma setup_fails_lt:
  assumes "\<not> \<bar>f x0\<bar> < tol" and "\<not> \<bar>f a\<bar> < tol" and "\<not> \<bar>f b\<bar> < tol"
    and "same_sign (f x0) (f a)" and "same_sign (f x0) (f b)" and "same_sign (f b) (f a)"
    and "f x0 < f a"
  shows "bracket_setup f x0 a b tol =
     Inl \<lparr>outcome = Returned (guess (give \<lparr>guess = x0, val = f x0\<rparr> \<lparr>guess = a, val = f a\<rparr> \<lparr>guess = b, val = f b\<rparr>)),
          printed = [NoRootInRange (guess (give \<lparr>guess = x0, val = f x0\<rparr> \<lparr>guess = a, val = f a\<rparr> \<lparr>guess = b, val = f b\<rparr>))
                        (val (give \<lparr>guess = x0, val = f x0\<rparr> \<lparr>guess = a, val = f a\<rparr> \<lparr>guess = b, val = f b\<rparr>))],
              evals = [x0, a, b]\<rparr>"
  unfolding bracket_setup_def Let_def
  by (simp only: assms if_True if_False hold_root_cand.select_convs simp_thms)

lemma setup_fails_ge:
  assumes "\<not> \<bar>f x0\<bar> < tol" and "\<not> \<bar>f a\<bar> < tol" and "\<not> \<bar>f b\<bar> < tol"
    and "same_sign (f a) (f x0)" and "same_sign (f a) (f b)" and "same_sign (f b) (f x0)"
    and "\<not> f x0 < f a"
  shows "bracket_setup f x0 a b tol =
     Inl \<lparr>outcome = Returned (guess (give \<lparr>guess = a, val = f a\<rparr> \<lparr>guess = x0, val = f x0\<rparr> \<lparr>guess = b, val = f b\<rparr>)),
          printed = [NoRootInRange (guess (give \<lparr>guess = a, val = f a\<rparr> \<lparr>guess = x0, val = f x0\<rparr> \<lparr>guess = b, val = f b\<rparr>))
                        (val (give \<lparr>guess = a, val = f a\<rparr> \<lparr>guess = x0, val = f x0\<rparr> \<lparr>guess = b, val = f b\<rparr>))],
              evals = [x0, a, b]\<rparr>"
  unfolding bracket_setup_def Let_def
  by (simp only: assms if_True if_False hold_root_cand.select_convs simp_thms)

lemma finder_of_setup:
  "a < b \<Longrightarrow> bracket_setup f x0 a b tol = Inl r \<Longrightarrow> custom_root_finder f x0 [a, b] tol max_iter = r"
  by (simp add: custom_root_finder_def)

text \<open>
  Claim C4. When the loop is entered and each of the \<open>max_iter\<close> iterations misses the
  tolerance and replaces one endpoint, the function runs off the end of its body: the
  call yields Python's implicit \<open>None\<close>, prints nothing, and has evaluated the
  objective \<open>max_iter\<close> times in the loop.
\<close>

theorem root_finder_exhausts_without_result:
  assumes "a < b"
    and "bracket_setup f x0 a b tol = Inr (left, right, es)"
    and "keeps_going max_iter f tol left right"
  shows "outcome (custom_root_finder f x0 [a, b] tol max_iter) = ReturnedNone \<and>
         printed (custom_root_finder f x0 [a, b] tol max_iter) = [] \<and>
         length (evals (custom_root_finder f x0 [a, b] tol max_iter)) = length es + max_iter"
  using assms iterate_keeps_going [OF assms(3)]
  by (simp add: custom_root_finder_def Let_def)

lemma setup_square:
  "bracket_setup (\<lambda>x. x * x - 2) 1 0 2 (1/1000) =
     Inr (\<lparr>guess = 0, val = -2\<rparr>, \<lparr>guess = 2, val = 2\<rparr>, [1, 0, 2])"
  by (simp add: bracket_setup_def same_sign_def Let_def)

lemma keeps_going_square:
  "keeps_going 3 (\<lambda>x. x * x - 2) (1/1000) \<lparr>guess = 0, val = -2\<rparr> \<lparr>guess = 2, val = 2\<rparr>"
  by (simp add: eval_nat_numeral next_guess_def same_sign_def Let_def)

theorem root_finder_exhausts_without_result_witness:
  "outcome (custom_root_finder (\<lambda>x. x * x - 2) 1 [0, 2] (1/1000) 3) = ReturnedNone \<and>
   printed (custom_root_finder (\<lambda>x. x * x - 2) 1 [0, 2] (1/1000) 3) = [] \<and>
   length (evals (custom_root_finder (\<lambda>x. x * x - 2) 1 [0, 2] (1/1000) 3)) = 6"
  using root_finder_exhausts_without_result [OF _ setup_square keeps_going_square]
  by simp

text \<open>
  Claim C9. For \<open>f(x) = x - 5\<close>, bracket \<open>[0, 10]\<close>, \<open>x0 = 1\<close> and \<open>tol = 1e-3\<close>
  the function returns 5, where the objective is within the tolerance, in one
  iteration whatever positive \<open>max_iter\<close> is: the objective is evaluated at 1, 0, 10
  and at the false-position point 5 of the endpoints \<open>(0, -5)\<close> and \<open>(10, 5)\<close>.
\<close>

theorem root_finder_linear:
  "custom_root_finder (\<lambda>x. x - 5) 1 [0, 10] (1/1000) (Suc n) =
     \<lparr>outcome = Returned 5, printed = [], evals = [1, 0, 10, 5]\<rparr> \<and>
   \<bar>(\<lambda>x. x - 5) (5::real)\<bar> < 1/1000 \<and>
   next_guess \<lparr>guess = 0, val = -5\<rparr> \<lparr>guess = 10, val = 5\<rparr> =
     0 + (10 - 0) * \<bar>-5\<bar> / (\<bar>-5\<bar> + \<bar>5\<bar>)"
  by (simp add: custom_root_finder_def bracket_setup_def same_sign_def next_guess_def Let_def)

text \<open>
  Claim C10. When the objective misses the tolerance at \<open>x0\<close> and at both ends of the
  bracket and its three values there share one sign, the call ends before the loop: it
  has evaluated the objective at these three points only, prints the diagnostic and
  returns, among the three candidates, one of smallest magnitude of the objective. It
  raises nothing.
\<close>

theorem bracket_repair_failure:
  assumes "a < b"
    and "\<not> \<bar>f x0\<bar> < tol" and "\<not> \<bar>f a\<bar> < tol" and "\<not> \<bar>f b\<bar> < tol"
    and "same_sign (f x0) (f a)" and "same_sign (f x0) (f b)" and "same_sign (f a) (f b)"
  shows "\<exists>g \<in> {\<lparr>guess = x0, val = f x0\<rparr>, \<lparr>guess = a, val = f a\<rparr>, \<lparr>guess = b, val = f b\<rparr>}.
           custom_root_finder f x0 [a, b] tol max_iter =
             \<lparr>outcome = Returned (guess g), printed = [NoRootInRange (guess g) (val g)],
              evals = [x0, a, b]\<rparr> \<and>
           \<bar>val g\<bar> \<le> \<bar>f x0\<bar> \<and> \<bar>val g\<bar> \<le> \<bar>f a\<bar> \<and> \<bar>val g\<bar> \<le> \<bar>f b\<bar>"
proof (cases "f x0 < f a")
  case True
  let ?l = "\<lparr>guess = x0, val = f x0\<rparr>" and ?r = "\<lparr>guess = a, val = f a\<rparr>"
    and ?n = "\<lparr>guess = b, val = f b\<rparr>"
  let ?g = "give ?l ?r ?n"
  have sym: "same_sign (f b) (f a)" using assms(7) same_sign_sym by blast
  have run: "custom_root_finder f x0 [a, b] tol max_iter =
      \<lparr>outcome = Returned (guess ?g), printed = [NoRootInRange (guess ?g) (val ?g)],
       evals = [x0, a, b]\<rparr>"
    by (rule finder_of_setup [OF assms(1) setup_fails_lt [of f x0 tol a b, OF assms(2-6) sym True]])
  have mem: "?g \<in> {?l, ?r, ?n}" using give_cases [of ?l ?r ?n] by blast
  have "\<bar>val ?g\<bar> \<le> \<bar>f x0\<bar> \<and> \<bar>val ?g\<bar> \<le> \<bar>f a\<bar> \<and> \<bar>val ?g\<bar> \<le> \<bar>f b\<bar>"
    using give_min [of ?l ?r ?n] by simp
  with run mem show ?thesis by blast
next
  case False
  let ?l = "\<lparr>guess = a, val = f a\<rparr>" and ?r = "\<lparr>guess = x0, val = f x0\<rparr>"
    and ?n = "\<lparr>guess = b, val = f b\<rparr>"
  let ?g = "give ?l ?r ?n"
  have sym: "same_sign (f a) (f x0)" "same_sign (f b) (f x0)"
    using assms(5,6) same_sign_sym by blast+
  have run: "custom_root_finder f x0 [a, b] tol max_iter =
      \<lparr>outcome = Returned (guess ?g), printed = [NoRootInRange (guess ?g) (val ?g)],
       evals = [x0, a, b]\<rparr>"
    by (rule finder_of_setup [OF assms(1) setup_fails_ge [of f x0 tol a b, OF assms(2-4) sym(1) assms(7) sym(2) False]])
  have mem: "?g \<in> {?r, ?l, ?n}" using give_cases [of ?l ?r ?n] by blast
  have "\<bar>val ?g\<bar> \<le> \<bar>f x0\<bar> \<and> \<bar>val ?g\<bar> \<le> \<bar>f a\<bar> \<and> \<bar>val ?g\<bar> \<le> \<bar>f b\<bar>"
    using give_min [of ?l ?r ?n] by simp
  with run mem show ?thesis by blast
qed

theorem bracket_repair_failure_witness:
  "custom_root_finder (\<lambda>x. x - 5) 12 [10, 20] (1/1000) 50 =
     \<lparr>outcome = Returned 10, printed = [NoRootInRange 10 5], evals = [12, 10, 20]\<rparr>"
  using bracket_repair_failure [of 10 20 "\<lambda>x. x - 5" 12 "1/1000" 50]
  by (simp add: same_sign_def)

section \<open>Properties of search_crit_conc\<close>

lemma Fin_minus [simp]: "Fin a - Fin b = Fin (a - b)"
  by (simp add: minus_float64_def)

lemma Fin_less [simp]: "(Fin a < Fin b) = (a < b)"
  by (auto simp: less_float64_def)


lemmas check_defs = check_arguments_def check_type_def check_iterable_type_def check_length_def
  check_less_than_def

lemmas batch_defs = batch_balance_def batch_estimate_def Let_def zeros_like_def bind_err_def
  minus_results_def same_shape_def read_balance_def score_def getitem_def batch_factor_def corr_def
  p_measure_def fuse_def minus_float64_def signed_inf_def

lemmas run_defs = search_crit_conc_def begin_search_def end_search_def check_defs
  fresh_operator_def scripted_def scripted_balance_def initial_vars_def eval_nat_numeral
  one_batch_def batch_defs rescale_def sync_materials_def sync_material_def

lemma harmonic_le:
  fixes p pm :: real
  assumes "0 < p" "0 < pm"
  shows "1 / (1 / p + 1 / pm) \<le> p" "1 / (1 / p + 1 / pm) \<le> pm" "0 < 1 / (1 / p + 1 / pm)"
proof -
  have eq: "1 / (1 / p + 1 / pm) = p * pm / (p + pm)"
    using assms by (simp add: field_simps)
  have "p * pm \<le> p * (p + pm)" "p * pm \<le> pm * (p + pm)"
    using assms by (simp_all add: algebra_simps)
  then show "1 / (1 / p + 1 / pm) \<le> p" "1 / (1 / p + 1 / pm) \<le> pm"
    using assms unfolding eq by (simp_all add: pos_divide_le_eq)
  show "0 < 1 / (1 / p + 1 / pm)" using assms unfolding eq by simp
qed

lemma fuse_finite:
  assumes "M \<noteq> 1" and "0 < p" and "0 < pm"
  shows "fuse M (Some (Fin x)) (Some (Fin p)) (Fin pm) (Fin z) =
           Inr (Fin (x + (1 / (1 / p + 1 / pm)) / p * (z - x)), Fin (1 / (1 / p + 1 / pm)))"
proof -
  have "1 / p + 1 / pm > 0" using assms by (simp add: add_pos_pos)
  then show ?thesis using assms by (simp add: fuse_def Let_def)
qed


text \<open>
  Claim C1. The specification moves the running estimate by
  \<open>(running_precision_new / p_measure) * (z - running_estimate)\<close>. The source
  divides the new precision by the running precision \<open>p\<close> of the batch before, not
  by \<open>p_measure\<close>: for the second batch with \<open>x = 1\<close>, \<open>p = 1\<close>,
  \<open>p_measure = 3\<close> and \<open>z = 2\<close> it gives the estimate \<open>7/4\<close> where the
  recursion of the specification gives \<open>5/4\<close>; the new precision is \<open>3/4\<close> in both.
\<close>

theorem fuse_weights_by_running_precision:
  "fuse 2 (Some (Fin 1)) (Some (Fin 1)) (Fin 3) (Fin 2) = Inr (Fin (7 / 4), Fin (3 / 4)) \<and>
   spec_fuse 1 1 3 2 = (5 / 4, 3 / 4)"
  by (simp add: fuse_def spec_fuse_def Let_def)

text \<open>
  Claim C5. In a batch after the first, with a positive running precision and a
  positive \<open>p_measure\<close>, the new precision \<open>1 / (1/p + 1/p_measure)\<close> that the
  fusion adopts is at most the smaller of the two.
\<close>

theorem fused_precision_bound:
  assumes "M \<noteq> 1" and "0 < p" and "0 < pm"
  shows "fuse M (Some (Fin x)) (Some (Fin p)) (Fin pm) (Fin z) =
           Inr (Fin (x + (1 / (1 / p + 1 / pm)) / p * (z - x)), Fin (1 / (1 / p + 1 / pm))) \<and>
         1 / (1 / p + 1 / pm) \<le> min p pm"
  using fuse_finite [OF assms] harmonic_le(1,2) [OF assms(2,3)] by simp

theorem fused_precision_bound_witness:
  "fuse 3 (Some (Fin 1)) (Some (Fin 2)) (Fin 2) (Fin 3) = Inr (Fin 2, Fin 1) \<and>
   (1::real) \<le> min 2 2"
  using fused_precision_bound [of 3 2 2 1 3] by simp










lemma set_rescale:
  "set (rescale g isos mat) =
     {(nuc, if nuc \<in> set isos then d * g else d) | nuc d.
        map_of mat nuc = Some d \<and> Fin (1 / 10 ^ 36) < d}"
proof (intro set_eqI iffI)
  fix e assume "e \<in> set (rescale g isos mat)"
  then obtain a b where
    e: "e \<in> set (case map_of mat a of None \<Rightarrow> []
                  | Some v \<Rightarrow> if Fin (1 / 10 ^ 36) < v
                              then [(a, if a \<in> set isos then v * g else v)] else [])"
    by (auto simp: rescale_def)
  then obtain u where u: "map_of mat a = Some u" by (cases "map_of mat a") auto
  with e have "Fin (1 / 10 ^ 36) < u" "e = (a, if a \<in> set isos then u * g else u)"
    by (auto split: if_splits)
  with u show "e \<in> {(nuc, if nuc \<in> set isos then d * g else d) | nuc d.
        map_of mat nuc = Some d \<and> Fin (1 / 10 ^ 36) < d}"
    by blast
next
  fix e assume "e \<in> {(nuc, if nuc \<in> set isos then d * g else d) | nuc d.
        map_of mat nuc = Some d \<and> Fin (1 / 10 ^ 36) < d}"
  then obtain nuc d where e: "e = (nuc, if nuc \<in> set isos then d * g else d)"
    and d: "map_of mat nuc = Some d" "Fin (1 / 10 ^ 36) < d" by blast
  from d(1) have "(nuc, d) \<in> set mat" by (rule map_of_SomeD)
  with d e show "e \<in> set (rescale g isos mat)"
    by (force simp: rescale_def)
qed

lemma rescale_nuclide:
  assumes "map_of mat nuc = Some d"
  shows "if Fin (1 / 10 ^ 36) < d
         then (nuc, if nuc \<in> set isos then d * g else d) \<in> set (rescale g isos mat) \<and>
              (\<forall>e. (nuc, e) \<in> set (rescale g isos mat) \<longrightarrow>
                     e = (if nuc \<in> set isos then d * g else d))
         else nuc \<notin> fst ` set (rescale g isos mat)"
  using assms unfolding set_rescale by auto

lemma rescale_names: "fst ` set (rescale g isos mat) \<subseteq> fst ` set mat"
  unfolding set_rescale by (auto dest: map_of_SomeD intro: rev_image_eqI)

text \<open>
  Claim C8. A batch \<open>M < batches\<close> that raises nothing computes its factor
  \<open>g = f/f_prev\<close> from the balance of the batch and rewrites every material of the
  library, in place and in order: a nuclide whose density is not above \<open>1e-36\<close> is
  left out of the new composition; a nuclide above it is kept, with its density
  multiplied by \<open>g\<close> when it is tracked and unchanged when it is not; and no other
  nuclide comes in.
\<close>

theorem density_update_threshold:
  assumes "int M < batches"
    and "one_batch c isos batches target M (v, self) = (None, v', self')"
  shows "(\<exists>bal prev_res prev_leak.
            batch_balance c M (next_batch c (lib_materials self) (lib_simulation self)) v =
              Inr (bal, prev_res, prev_leak) \<and>
            batch_estimate target (self_particles self) M
              (fst (keff c (next_batch c (lib_materials self) (lib_simulation self)))) bal
              (v\<lparr>var_prev_res := prev_res, var_prev_leak := prev_leak\<rparr>) = Inr v') \<and>
         var_g v' = var_f v' / var_f_prev v \<and>
         length (lib_materials self') = length (lib_materials self) \<and>
         (\<forall>j < length (lib_materials self).
            fst (lib_materials self' ! j) = fst (lib_materials self ! j) \<and>
            fst ` set (snd (lib_materials self' ! j)) \<subseteq> fst ` set (snd (lib_materials self ! j)) \<and>
            (\<forall>nuc d. map_of (snd (lib_materials self ! j)) nuc = Some d \<longrightarrow>
               (if Fin (1 / 10 ^ 36) < d
                then (nuc, if nuc \<in> set isos then d * var_g v' else d)
                       \<in> set (snd (lib_materials self' ! j)) \<and>
                     (\<forall>e. (nuc, e) \<in> set (snd (lib_materials self' ! j)) \<longrightarrow>
                            e = (if nuc \<in> set isos then d * var_g v' else d))
                else nuc \<notin> fst ` set (snd (lib_materials self' ! j)))))"
proof -
  let ?sim = "next_batch c (lib_materials self) (lib_simulation self)"
  from assms obtain bal prev_res prev_leak where
    bb: "batch_balance c M ?sim v = Inr (bal, prev_res, prev_leak)"
    and est: "batch_estimate target (self_particles self) M (fst (keff c ?sim)) bal
            (v\<lparr>var_prev_res := prev_res, var_prev_leak := prev_leak\<rparr>) = Inr v'"
    and mats: "lib_materials self' =
                 map (\<lambda>(i, mat). (i, rescale (var_g v') isos mat)) (lib_materials self)"
    by (auto simp: one_batch_def Let_def split: sum.splits prod.splits)
  from est have g: "var_g v' = var_f v' / var_f_prev v"
    by (auto simp: batch_estimate_def Let_def bind_err_def split: sum.splits)
  have entry: "lib_materials self' ! j =
      (fst (lib_materials self ! j), rescale (var_g v') isos (snd (lib_materials self ! j)))"
    if "j < length (lib_materials self)" for j
    using that unfolding mats by (simp add: case_prod_unfold)
  have per: "fst (lib_materials self' ! j) = fst (lib_materials self ! j) \<and>
            fst ` set (snd (lib_materials self' ! j)) \<subseteq> fst ` set (snd (lib_materials self ! j)) \<and>
            (\<forall>nuc d. map_of (snd (lib_materials self ! j)) nuc = Some d \<longrightarrow>
               (if Fin (1 / 10 ^ 36) < d
                then (nuc, if nuc \<in> set isos then d * var_g v' else d)
                       \<in> set (snd (lib_materials self' ! j)) \<and>
                     (\<forall>e. (nuc, e) \<in> set (snd (lib_materials self' ! j)) \<longrightarrow>
                            e = (if nuc \<in> set isos then d * var_g v' else d))
                else nuc \<notin> fst ` set (snd (lib_materials self' ! j))))"
    if "j < length (lib_materials self)" for j
    unfolding entry [OF that] fst_conv snd_conv
    using rescale_nuclide [of "snd (lib_materials self ! j)" _ _ isos "var_g v'"]
      rescale_names [of "var_g v'" isos "snd (lib_materials self ! j)"]
    by blast
  have len: "length (lib_materials self') = length (lib_materials self)"
    unfolding mats by simp
  from bb est g len per show ?thesis by blast
qed

lemma scripted_batch:
  "one_batch (scripted (11 / 10) 4) [''B10''] 3 1 1 (initial_vars, fresh_operator) =
     (None,
      \<lparr>var_f = Fin (11 / 10), var_g = Fin (11 / 10), var_f_prev = Fin (11 / 10),
       var_x = Some (Fin (11 / 10)), var_p = Some (Fin 1),
       var_prev_res =
         [[[[0, 11 / 10, 0], [0, 0, 0], [0, 1, 0], [0, 0, 0], [0, 0, 0]]], [[[0, 1, 0]]]],
       var_prev_leak = 0\<rparr>,
      \<lparr>self_initial_value = None, self_concs = [], self_reaction_rates = [3, 4],
       self_particles = 1, self_n_calls = 0,
       model_materials =
         [(1, [(''B10'', Fin (2 / 10 ^ 36)), (''H1'', Fin (5 / 10 ^ 37)), (''O16'', Fin 1)])],
       lib_materials = [(1, [(''B10'', Fin (22 / 10 ^ 37)), (''O16'', Fin 1)])],
       lib_simulation = 1, lib_calls = [NextBatch],
       printed_balances =
         [\<lparr>P_fiss_prompt = 11 / 10, P_fiss_delayed = 0, P_nxn = 0, L_leak = 0, L_abs = 1,
           L_abs_nucs = 1\<rparr>]\<rparr>)"
  by (simp add: run_defs)

theorem density_update_threshold_witness:
  "var_g (fst (snd (one_batch (scripted (11 / 10) 4) [''B10''] 3 1 1
      (initial_vars, fresh_operator)))) = Fin (11 / 10) \<and>
   lib_materials fresh_operator =
     [(1, [(''B10'', Fin (2 / 10 ^ 36)), (''H1'', Fin (5 / 10 ^ 37)), (''O16'', Fin 1)])] \<and>
   lib_materials (snd (snd (one_batch (scripted (11 / 10) 4) [''B10''] 3 1 1
      (initial_vars, fresh_operator)))) =
     [(1, [(''B10'', Fin (22 / 10 ^ 37)), (''O16'', Fin 1)])]"
proof -
  have first: "int 1 < 3" by simp
  from density_update_threshold [OF first scripted_batch, THEN conjunct2, THEN conjunct1]
  show ?thesis unfolding scripted_batch by (simp add: fresh_operator_def initial_vars_def)
qed

text \<open>
  Claim C2, as amended. The call raises, with the state of the operator and of the
  library untouched (no transport batch, no density written), when \<open>iso\<close> is
  missing, when \<open>initial_value\<close> is missing or not a real number, when \<open>batches\<close>
  is missing or not integral, or when the bracket's lower bound is not below its upper
  bound.
\<close>

theorem invalid_arguments_fail_fast:
  assumes "isos = None \<or> initial_value = PyNone \<or> \<not> is_Real initial_value \<or>
           batches = PyNone \<or> \<not> is_Integral batches \<or>
           (\<exists>lo hi. bracket = PyList [lo, hi] \<and> number lo \<ge> number hi)"
  shows "\<exists>e. search_crit_conc c self vec source_rate isos batches bracket initial_value target =
           (Inl e, self)"
proof -
  have "check_arguments isos batches bracket initial_value \<noteq> None"
    using assms by (auto simp: check_defs split: option.splits if_splits)
  then show ?thesis by (auto simp: search_crit_conc_def)
qed

theorem invalid_arguments_fail_fast_witness:
  "search_crit_conc (scripted 2 2) fresh_operator () 1 (Some [''B10'']) (PyInt 2)
     (PyList [PyFloat 2, PyFloat 1]) (PyFloat 5) 1 = (Inl ValueError, fresh_operator)"
  using invalid_arguments_fail_fast [of "Some [''B10'']" "PyFloat 5" "PyInt 2"
      "PyList [PyFloat 2, PyFloat 1]" "scripted 2 2" fresh_operator "()" 1 1]
  by (simp add: search_crit_conc_def check_defs)

text \<open>
  Claim C2, as stated, fails: an empty \<open>iso\<close> sequence passes the checks, and so
  does a negative \<open>initial_value\<close>; the call with the empty sequence runs the
  transport batches, rewrites the densities of the library material, and returns a
  result.
\<close>

theorem unchecked_arguments_counterexample:
  "check_arguments (Some []) (PyInt 2) PyNone (PyFloat 5) = None \<and>
   check_arguments (Some [''B10'']) (PyInt 2) PyNone (PyFloat (- 5)) = None \<and>
   search_crit_conc (scripted 2 2) fresh_operator () 1 (Some []) (PyInt 2) PyNone
     (PyFloat 5) 1 =
   (Inr \<lparr>res_k = (1, 0), res_rates = [7, 9]\<rparr>,
    \<lparr>self_initial_value = Some (Fin 10), self_concs = [Fin 5, Fin 10],
     self_reaction_rates = [3, 4], self_particles = 1, self_n_calls = 1,
     model_materials =
       [(1, [(''H1'', Fin (5 / 10 ^ 37)), (''B10'', Fin (2 / 10 ^ 36)), (''O16'', Fin 1)])],
     lib_materials = [(1, [(''B10'', Fin (2 / 10 ^ 36)), (''O16'', Fin 1)])],
     lib_simulation = 2,
     lib_calls = [ExportToXml, Reset, SimulationInit, NextBatch, NextBatch, Reset,
                  SimulationFinalize, ExportToXml],
     printed_balances =
       [\<lparr>P_fiss_prompt = 2, P_fiss_delayed = 0, P_nxn = 0, L_leak = 0, L_abs = 1,
         L_abs_nucs = 1\<rparr>]\<rparr>)"
  by (simp add: run_defs)

text \<open>
  Claim C3. With arguments that pass the checks and a source rate of zero, the method
  returns the eigenvalue zero with deviation zero and reaction rates that are all
  zero, and the state is the one it was called in: no call to the library, no
  density changed.
\<close>

theorem zero_source_rate_short_circuit:
  assumes "check_arguments isos batches bracket initial_value = None"
  shows "search_crit_conc c self vec 0 isos batches bracket initial_value target =
           (Inr \<lparr>res_k = (0, 0), res_rates = replicate (length (self_reaction_rates self)) 0\<rparr>,
            self)"
  using assms by (simp add: search_crit_conc_def map_replicate_const)

theorem zero_source_rate_short_circuit_witness:
  "search_crit_conc (scripted 2 3) fresh_operator () 0 (Some [''B10'']) (PyInt 3) PyNone
     (PyFloat 5) 1 = (Inr \<lparr>res_k = (0, 0), res_rates = [0, 0]\<rparr>, fresh_operator)"
proof -
  have ok: "check_arguments (Some [''B10'']) (PyInt 3) PyNone (PyFloat 5) = None"
    by (simp add: check_defs)
  show ?thesis
    using zero_source_rate_short_circuit [OF ok, of "scripted 2 3" fresh_operator "()" 1]
    by (simp add: fresh_operator_def)
qed



















end
